theory Spec2Isabelle
  imports Complex_Main
begin

section \<open>Strings and numbers as the JavaScript source uses them\<close>

text \<open>
  The server exists in several revisions.  The model follows the latest one, which
  has the roster multipliers and the rank-gated legs; a function of the older
  \<open>server.js\<close> that differs where a property depends on it stands beside it under
  a name that ends in \<open>_server_js\<close>.

  Strings are \<open>char list\<close>s over one-byte characters; case mapping acts on the
  ASCII letters and leaves every other character alone.  JavaScript numbers are
  modelled by exact rationals, with \<open>NaN\<close> as a value of its own where the source
  can produce it; instants are integers (milliseconds).  Documents of the store are
  taken as the schemas normalise them (trimmed, upper-cased where the schema says so);
  the validators of the schemas are not run.
\<close>

datatype jsnum = NaN | Num rat

definition isNaN :: "jsnum \<Rightarrow> bool" where
  "isNaN x = (case x of NaN \<Rightarrow> True | Num _ \<Rightarrow> False)"

text \<open>White space as \<open>String.prototype.trim\<close>, \<open>parseInt\<close> and the class \<open>\s\<close> see it.\<close>

definition is_space :: "char \<Rightarrow> bool" where
  "is_space c = (c \<in> set [CHR 0x09, CHR 0x0A, CHR 0x0B, CHR 0x0C, CHR 0x0D, CHR 0x20, CHR 0xA0])"

definition is_digit :: "char \<Rightarrow> bool" where
  "is_digit c = (c \<in> set ''0123456789'')"


definition trim :: "string \<Rightarrow> string" where
  "trim s = rev (dropWhile is_space (rev (dropWhile is_space s)))"

definition to_upper_char :: "char \<Rightarrow> char" where
  "to_upper_char c =
     (case map_of (zip ''abcdefghijklmnopqrstuvwxyz'' ''ABCDEFGHIJKLMNOPQRSTUVWXYZ'') c of
        Some u \<Rightarrow> u
      | None \<Rightarrow> c)"

definition to_lower_char :: "char \<Rightarrow> char" where
  "to_lower_char c =
     (case map_of (zip ''ABCDEFGHIJKLMNOPQRSTUVWXYZ'' ''abcdefghijklmnopqrstuvwxyz'') c of
        Some u \<Rightarrow> u
      | None \<Rightarrow> c)"

definition toUpperCase :: "string \<Rightarrow> string" where
  "toUpperCase s = map to_upper_char s"

definition toLowerCase :: "string \<Rightarrow> string" where
  "toLowerCase s = map to_lower_char s"

text \<open>\<open>s.includes(t)\<close>: \<open>t\<close> occurs in \<open>s\<close> as a contiguous run.\<close>

fun is_prefix :: "string \<Rightarrow> string \<Rightarrow> bool" where
  "is_prefix [] s = True"
| "is_prefix (p # ps) [] = False"
| "is_prefix (p # ps) (c # cs) = (p = c \<and> is_prefix ps cs)"

fun str_includes :: "string \<Rightarrow> string \<Rightarrow> bool" where
  "str_includes [] t = (t = [])"
| "str_includes (c # cs) t = (is_prefix t (c # cs) \<or> str_includes cs t)"


definition digit_val :: "char \<Rightarrow> int" where
  "digit_val c =
     (case map_of (zip ''0123456789'' [0, 1, 2, 3, 4, 5, 6, 7, 8, 9]) c of
        Some d \<Rightarrow> d
      | None \<Rightarrow> 0)"

definition digits_val :: "string \<Rightarrow> int" where
  "digits_val ds = foldl (\<lambda>n c. 10 * n + digit_val c) 0 ds"


text \<open>
  \<open>s.match(/(\d+)\s*h/)\<close> and \<open>s.match(/(\d+)\s*m/)\<close>: the leftmost position
  where a run of digits, then any white space, then the letter follows; the result is
  the captured run of digits.  At a digit the greedy run is the only candidate, since
  giving back a digit or a blank leaves a character that is neither blank nor the letter.
\<close>

fun match_digits_then :: "char \<Rightarrow> string \<Rightarrow> string option" where
  "match_digits_then letter [] = None"
| "match_digits_then letter (c # cs) =
     (if is_digit c \<and>
         (case dropWhile is_space (dropWhile is_digit (c # cs)) of
            [] \<Rightarrow> False
          | x # _ \<Rightarrow> x = letter)
      then Some (takeWhile is_digit (c # cs))
      else match_digits_then letter cs)"

section \<open>Route ingestion\<close>


text \<open>
  \<open>convertTimeToDecimal\<close> as \<open>server.js\<close> has it, the older form of the parser: the
  two letter patterns on the untrimmed cell, and zero when neither matches.
\<close>

definition convertTimeToDecimal_server_js :: "string option \<Rightarrow> jsnum" where
  "convertTimeToDecimal_server_js timeStr =
     (case timeStr of
        None \<Rightarrow> NaN
      | Some str \<Rightarrow>
          if str = [] then NaN
          else Num ((case match_digits_then (CHR ''h'') str of
                       None \<Rightarrow> 0
                     | Some ds \<Rightarrow> of_int (digits_val ds))
                    + (case match_digits_then (CHR ''m'') str of
                         None \<Rightarrow> 0
                       | Some ds \<Rightarrow> of_int (digits_val ds) / 60)))"


section \<open>Rank tiers and the aircraft table\<close>

definition MIN_REST_PERIOD :: int where
  "MIN_REST_PERIOD = 8 * 60 * 60 * 1000"

definition MAX_DAILY_FLIGHT_HOURS :: rat where
  "MAX_DAILY_FLIGHT_HOURS = 10"

definition MAX_MONTHLY_FLIGHT_HOURS :: rat where
  "MAX_MONTHLY_FLIGHT_HOURS = 100"

definition pilotRanks :: "string list" where
  "pilotRanks =
     [''IndGo Cadet'', ''Skyline Observer'', ''Route Explorer'', ''Skyline Officer'',
      ''Command Captain'', ''Elite Captain'', ''Blue Eagle'', ''Line Instructor'',
      ''Chief Flight Instructor'', ''IndGo SkyMaster'', ''Blue Legacy Commander'']"

definition rankThresholds :: "(string \<times> rat) list" where
  "rankThresholds =
     [(''IndGo Cadet'', 0), (''Skyline Observer'', 50), (''Route Explorer'', 100),
      (''Skyline Officer'', 180), (''Command Captain'', 300), (''Elite Captain'', 500),
      (''Blue Eagle'', 750), (''Line Instructor'', 1000),
      (''Chief Flight Instructor'', 1400), (''IndGo SkyMaster'', 1800),
      (''Blue Legacy Commander'', 2300)]"

text \<open>\<open>Array.prototype.indexOf\<close>: the first position of the element, or \<open>-1\<close>.\<close>

fun indexOf :: "'a list \<Rightarrow> 'a \<Rightarrow> int" where
  "indexOf [] x = - 1"
| "indexOf (y # ys) x =
     (if y = x then 0 else (let i = indexOf ys x in if 0 \<le> i then i + 1 else - 1))"

definition rankIndex :: "string \<Rightarrow> int" where
  "rankIndex r = (let i = indexOf pilotRanks (trim r) in if 0 \<le> i then i else - 1)"

definition canFlyLeg :: "string \<Rightarrow> string \<Rightarrow> bool" where
  "canFlyLeg userRank legRank =
     (let ui = rankIndex userRank; li = rankIndex legRank
      in 0 \<le> ui \<and> 0 \<le> li \<and> li \<le> ui)"

text \<open>
  The aircraft table of \<open>deduceRankFromAircraft\<close>, in the order of the source's
  chain of tests: each entry lists the alternatives of one pattern and the rank it
  gives.  The string is upper-cased before the tests, and every alternative is
  a literal in capitals and digits, so a test is a search for one of them.
\<close>

definition aircraftRankTable :: "(string list \<times> string) list" where
  "aircraftRankTable =
     [([''Q400'', ''A320'', ''B738''], ''IndGo Cadet''),
      ([''A321'', ''B737''], ''Skyline Observer''),
      ([''A330'', ''B38M''], ''Route Explorer''),
      ([''787-8'', ''777-200LR''], ''Skyline Officer''),
      ([''787-9'', ''777-300ER''], ''Command Captain''),
      ([''A350''], ''Elite Captain''),
      ([''A380'', ''747'', ''744''], ''Blue Eagle''),
      ([''INSTRUCTOR''], ''Line Instructor''),
      ([''CHIEF''], ''Chief Flight Instructor''),
      ([''SKYMASTER''], ''IndGo SkyMaster''),
      ([''COMMANDER''], ''Blue Legacy Commander'')]"

definition has :: "string \<Rightarrow> string list \<Rightarrow> bool" where
  "has s alts = list_ex (str_includes s) alts"

definition deduceRankFromAircraft :: "string \<Rightarrow> string" where
  "deduceRankFromAircraft acStr =
     (let s = toUpperCase acStr
      in if s = [] then ''Unknown''
         else (case find (\<lambda>(alts, r). has s alts) aircraftRankTable of
                 Some (alts, r) \<Rightarrow> r
               | None \<Rightarrow> ''Unknown''))"

section \<open>Legs and the rows of a sheet\<close>

record leg =
  flightNumber :: string
  departure :: string
  arrival :: string
  aircraft :: string
  flightTime :: rat
  rankUnlock :: "string option"
  operator :: "string option"

definition getLegRequiredRank :: "leg \<Rightarrow> string" where
  "getLegRequiredRank l =
     (case rankUnlock l of
        Some r \<Rightarrow>
          if r \<noteq> [] \<and> r \<in> set pilotRanks then r else deduceRankFromAircraft (aircraft l)
      | None \<Rightarrow> deduceRankFromAircraft (aircraft l))"







section \<open>Roster synthesizer\<close>

type_synonym oid = nat

record roster =
  name :: string
  hub :: string
  legs :: "leg list"
  totalFlightTime :: rat
  multiplier :: rat
  isAvailable :: bool
  isGenerated :: bool
  createdBy :: "oid option"

text \<open>
  \<open>legsByDeparture\<close>: the \<open>reduce\<close> that groups the legs under their departure
  airport.  The object is an association list in the order in which the keys were
  first set, which is the order of \<open>Object.keys\<close>.
\<close>

fun group_push :: "(string \<times> leg list) list \<Rightarrow> leg \<Rightarrow> (string \<times> leg list) list" where
  "group_push [] l = [(departure l, [l])]"
| "group_push ((k, ls) # acc) l =
     (if k = departure l then (k, ls @ [l]) # acc else (k, ls) # group_push acc l)"

definition legsByDeparture :: "leg list \<Rightarrow> (string \<times> leg list) list" where
  "legsByDeparture allLegs = foldl group_push [] allLegs"

text \<open>\<open>legsByDeparture[a] || []\<close>\<close>

definition legsAt :: "(string \<times> leg list) list \<Rightarrow> string \<Rightarrow> leg list" where
  "legsAt lbd a = (case map_of lbd a of None \<Rightarrow> [] | Some ls \<Rightarrow> ls)"

text \<open>
  \<open>Math.random\<close> is a sequence of draws \<open>rnd 0, rnd 1, ...\<close> and the number of
  draws made so far; the language promises \<open>0 \<le> rnd k < 1\<close>.  An index outside
  the array reads \<open>undefined\<close>, and the next property access throws: \<open>None\<close>.
\<close>

definition random_below :: "(nat \<Rightarrow> rat) \<Rightarrow> nat \<Rightarrow> nat \<Rightarrow> int" where
  "random_below rnd k n = \<lfloor>rnd k * of_nat n\<rfloor>"

definition at_index :: "'a list \<Rightarrow> int \<Rightarrow> 'a option" where
  "at_index xs i = (if 0 \<le> i \<and> i < int (length xs) then Some (xs ! nat i) else None)"

text \<open>
  The inner loop \<open>for (j = 0; j < legCount; j++)\<close>; the first argument after the
  draws counts the iterations that remain.  The result is \<open>rosterLegs\<close>,
  \<open>totalTime\<close> and the number of draws made.
\<close>

fun add_legs ::
  "(string \<times> leg list) list \<Rightarrow> (nat \<Rightarrow> rat) \<Rightarrow> nat \<Rightarrow> leg list \<Rightarrow> string \<Rightarrow> rat \<Rightarrow>
   string list \<Rightarrow> nat \<Rightarrow> (leg list \<times> rat \<times> nat) option" where
  "add_legs lbd rnd 0 rosterLegs currentAirport totalTime usedFlightNumbers k =
     Some (rosterLegs, totalTime, k)"
| "add_legs lbd rnd (Suc n) rosterLegs currentAirport totalTime usedFlightNumbers k =
     (let possibleNextLegs =
            filter (\<lambda>l. flightNumber l \<notin> set usedFlightNumbers) (legsAt lbd currentAirport)
      in if possibleNextLegs = [] then Some (rosterLegs, totalTime, k)
         else (case at_index possibleNextLegs (random_below rnd k (length possibleNextLegs)) of
                 None \<Rightarrow> None
               | Some nextLeg \<Rightarrow>
                   if totalTime + flightTime nextLeg > MAX_DAILY_FLIGHT_HOURS
                   then Some (rosterLegs, totalTime, k + 1)
                   else add_legs lbd rnd n (rosterLegs @ [nextLeg]) (arrival nextLeg)
                          (totalTime + flightTime nextLeg)
                          (flightNumber nextLeg # usedFlightNumbers) (k + 1)))"

fun string_of_nat :: "nat \<Rightarrow> string" where
  "string_of_nat n =
     (if n < 10 then [''0123456789'' ! n]
      else string_of_nat (n div 10) @ [''0123456789'' ! (n mod 10)])"

declare string_of_nat.simps [simp del]

text \<open>\<open>parseFloat(x.toFixed(2))\<close>: the nearest multiple of one hundredth.\<close>

definition toFixed2 :: "rat \<Rightarrow> rat" where
  "toFixed2 x = of_int \<lfloor>x * 100 + 1 / 2\<rfloor> / 100"

text \<open>
  One pass of the loop over \<open>i\<close>: one candidate roster from \<open>departureAirport\<close>,
  kept when it has two legs or more.
\<close>

definition candidate ::
  "(string \<times> leg list) list \<Rightarrow> (nat \<Rightarrow> rat) \<Rightarrow> string \<Rightarrow> nat \<Rightarrow> nat \<Rightarrow>
   (roster list \<times> nat) option" where
  "candidate lbd rnd departureAirport i k =
     (let legCount = random_below rnd k 3 + 2
      in case add_legs lbd rnd (nat legCount) [] departureAirport 0 [] (k + 1) of
           None \<Rightarrow> None
         | Some (rosterLegs, totalTime, k') \<Rightarrow>
             if 2 \<le> length rosterLegs
             then Some ([\<lparr>name = departureAirport @ '' Sector Duty #'' @ string_of_nat (i + 1),
                           hub = departureAirport,
                           legs = rosterLegs,
                           totalFlightTime = totalTime,
                           multiplier = toFixed2 (11 / 10 + rnd k' * (4 / 10)),
                           isAvailable = True,
                           isGenerated = True,
                           createdBy = None\<rparr>], k' + 1)
             else Some ([], k'))"

fun candidates ::
  "(string \<times> leg list) list \<Rightarrow> (nat \<Rightarrow> rat) \<Rightarrow> string \<Rightarrow> nat list \<Rightarrow> nat \<Rightarrow>
   (roster list \<times> nat) option" where
  "candidates lbd rnd departureAirport [] k = Some ([], k)"
| "candidates lbd rnd departureAirport (i # rest) k =
     (case candidate lbd rnd departureAirport i k of
        None \<Rightarrow> None
      | Some (rs, k') \<Rightarrow>
          (case candidates lbd rnd departureAirport rest k' of
             None \<Rightarrow> None
           | Some (rs', k'') \<Rightarrow> Some (rs @ rs', k'')))"

definition rosterCountPerAirport :: nat where
  "rosterCountPerAirport = 3"

fun all_airports ::
  "(string \<times> leg list) list \<Rightarrow> (nat \<Rightarrow> rat) \<Rightarrow> string list \<Rightarrow> nat \<Rightarrow>
   (roster list \<times> nat) option" where
  "all_airports lbd rnd [] k = Some ([], k)"
| "all_airports lbd rnd (departureAirport # rest) k =
     (case (if map_of lbd departureAirport = None then Some ([], k)
            else candidates lbd rnd departureAirport [0 ..< rosterCountPerAirport] k) of
        None \<Rightarrow> None
      | Some (rs, k') \<Rightarrow>
          (case all_airports lbd rnd rest k' of
             None \<Rightarrow> None
           | Some (rs', k'') \<Rightarrow> Some (rs @ rs', k'')))"

text \<open>\<open>generatedRosters\<close>, from the legs that the sheets gave.\<close>

definition generatedRosters :: "leg list \<Rightarrow> (nat \<Rightarrow> rat) \<Rightarrow> roster list option" where
  "generatedRosters allLegs rnd =
     (let lbd = legsByDeparture allLegs
      in map_option fst (all_airports lbd rnd (map fst lbd) 0))"

section \<open>The document store\<close>

datatype dutyStatus = ON_REST | ON_DUTY

datatype pirepStatus = PENDING | APPROVED | REJECTED

record user =
  rank :: string
  flightHours :: rat
  dutyStatus :: dutyStatus
  currentRoster :: "oid option"
  lastDutyStart :: "int option"
  lastDutyOff :: "int option"
  dailyFlightHours :: rat
  monthlyFlightHours :: rat
  lastHourReset :: int
  lastKnownAirport :: string
  lastDutyAirport :: "string option"

text \<open>
  A flight report.  \<open>rosterLeg\<close> is the pair \<open>rosterId\<close>, \<open>flightNumber\<close> of a
  report filed on duty.
\<close>

record pirep =
  pilot :: oid
  pirep_flightNumber :: string
  pirep_departure :: string
  pirep_arrival :: string
  pirep_aircraft :: string
  pirep_flightTime :: rat
  status :: pirepStatus
  reviewedBy :: "oid option"
  rejectionReason :: "string option"
  reviewedAt :: "int option"
  verificationImageUrl :: "string option"
  isMultiplierEligible :: bool
  rosterLeg :: "(oid \<times> string) option"

text \<open>
  The three collections; \<open>next_id\<close> is the supply of fresh document identifiers.
  Collections that are listed or counted are association lists in insertion order.
\<close>

record store =
  users :: "oid \<Rightarrow> user option"
  rosters :: "(oid \<times> roster) list"
  pireps :: "(oid \<times> pirep) list"
  next_id :: oid

datatype denial =
    RosterNotFound
  | AlreadyOnDuty
  | CrewRestRequired int
  | MonthlyLimit
  | DailyLimit
  | OverRank string string
  | NotOnDuty
  | NoRosterAssigned
  | LegsIncomplete nat nat
  | PirepNotFound
  | AlreadyReviewed pirepStatus
  | PilotNotFound
  | ReasonRequired
  | MissingDetails
  | LegNotInRoster
  | DuplicateLeg
  | InvalidRank
  | UserNotFound
  | ServerError

definition findById :: "(oid \<times> 'a) list \<Rightarrow> oid \<Rightarrow> 'a option" where
  "findById coll i = map_of coll i"

definition save_doc :: "(oid \<times> 'a) list \<Rightarrow> oid \<Rightarrow> 'a \<Rightarrow> (oid \<times> 'a) list" where
  "save_doc coll i d = map (\<lambda>(j, e). if j = i then (j, d) else (j, e)) coll"


definition insertMany :: "'a list \<Rightarrow> oid \<Rightarrow> (oid \<times> 'a) list \<Rightarrow> (oid \<times> 'a) list" where
  "insertMany docs first coll = coll @ zip [first ..< first + length docs] docs"

subsection \<open>The whole generation run\<close>





section \<open>Rank promotion\<close>

definition threshold_reached :: "rat \<Rightarrow> string \<Rightarrow> bool" where
  "threshold_reached currentHours rankName =
     (case map_of rankThresholds rankName of None \<Rightarrow> False | Some t \<Rightarrow> t \<le> currentHours)"

text \<open>
  \<open>checkAndApplyRankUpdate\<close>: the loop runs from the last tier down and stops at the
  first tier whose threshold the hours reach.  The result is \<open>promoted\<close> with the
  rank, and the pilot.
\<close>

definition checkAndApplyRankUpdate :: "user \<Rightarrow> string option \<times> user" where
  "checkAndApplyRankUpdate p =
     (let newRank = (case find (threshold_reached (flightHours p)) (rev pilotRanks) of
                       None \<Rightarrow> rank p
                     | Some rankName \<Rightarrow> rankName)
      in if newRank \<noteq> rank p then (Some newRank, p\<lparr>rank := newRank\<rparr>) else (None, p))"

text \<open>\<open>PUT /api/users/:userId/rank\<close>: a pilot manager sets a rank by hand.\<close>

definition update_rank :: "store \<Rightarrow> oid \<Rightarrow> string \<Rightarrow> (denial + unit) \<times> store" where
  "update_rank db userId newRank =
     (if newRank = [] \<or> newRank \<notin> set pilotRanks then (Inl InvalidRank, db)
      else (case users db userId of
              None \<Rightarrow> (Inl UserNotFound, db)
            | Some u \<Rightarrow> (Inr (), db\<lparr>users := (users db)(userId \<mapsto> u\<lparr>rank := newRank\<rparr>)\<rparr>)))"

section \<open>Review of flight reports\<close>

record approval =
  hoursAwarded :: rat
  multiplierApplied :: rat
  promotedTo :: "string option"

text \<open>
  The hours that an approval credits, with the multiplier applied: the claimed time,
  times the multiplier of the linked roster when the report is eligible, the roster is
  still there and its multiplier exceeds one.
\<close>

definition hoursToAdd :: "store \<Rightarrow> pirep \<Rightarrow> rat \<times> rat" where
  "hoursToAdd db pr =
     (if isMultiplierEligible pr
      then (case rosterLeg pr of
              None \<Rightarrow> (pirep_flightTime pr, 1)
            | Some (rosterId, fn) \<Rightarrow>
                (case findById (rosters db) rosterId of
                   None \<Rightarrow> (pirep_flightTime pr, 1)
                 | Some r \<Rightarrow>
                     if multiplier r > 1
                     then (pirep_flightTime pr * multiplier r, multiplier r)
                     else (pirep_flightTime pr, 1)))
      else (pirep_flightTime pr, 1))"

text \<open>\<open>PUT /api/pireps/:pirepId/approve\<close>\<close>

definition approve_pirep :: "store \<Rightarrow> oid \<Rightarrow> oid \<Rightarrow> int \<Rightarrow> (denial + approval) \<times> store" where
  "approve_pirep db pirepId reviewer now =
     (case findById (pireps db) pirepId of
        None \<Rightarrow> (Inl PirepNotFound, db)
      | Some pr \<Rightarrow>
          if status pr \<noteq> PENDING then (Inl (AlreadyReviewed (status pr)), db)
          else
            (case users db (pilot pr) of
               None \<Rightarrow> (Inl PilotNotFound, db)
             | Some p \<Rightarrow>
                 (let (hours, mult) = hoursToAdd db pr;
                      p1 = p\<lparr>flightHours := flightHours p + hours,
                              monthlyFlightHours := monthlyFlightHours p + hours,
                              dailyFlightHours := dailyFlightHours p + hours,
                              lastKnownAirport := pirep_arrival pr\<rparr>;
                      (promotion, p2) = checkAndApplyRankUpdate p1;
                      pr' = pr\<lparr>status := APPROVED, reviewedBy := Some reviewer,
                                reviewedAt := Some now, verificationImageUrl := None\<rparr>
                  in (Inr \<lparr>hoursAwarded = hours, multiplierApplied = mult,
                            promotedTo = promotion\<rparr>,
                      db\<lparr>users := (users db)(pilot pr \<mapsto> p2),
                         pireps := save_doc (pireps db) pirepId pr'\<rparr>))))"

text \<open>\<open>PUT /api/pireps/:pirepId/reject\<close>, as the later revision has it: look up, test, then write.\<close>

definition reject_pirep ::
  "store \<Rightarrow> oid \<Rightarrow> oid \<Rightarrow> int \<Rightarrow> string \<Rightarrow> (denial + unit) \<times> store" where
  "reject_pirep db pirepId reviewer now reason =
     (if reason = [] then (Inl ReasonRequired, db)
      else
        (case findById (pireps db) pirepId of
           None \<Rightarrow> (Inl PirepNotFound, db)
         | Some pr \<Rightarrow>
             if status pr \<noteq> PENDING then (Inl (AlreadyReviewed (status pr)), db)
             else (Inr (),
                   db\<lparr>pireps :=
                        save_doc (pireps db) pirepId
                          (pr\<lparr>status := REJECTED, rejectionReason := Some reason,
                              reviewedBy := Some reviewer, reviewedAt := Some now,
                              verificationImageUrl := None\<rparr>)\<rparr>)))"

text \<open>
  The same route in \<open>server.js\<close>: \<open>findByIdAndUpdate\<close> with \<open>new: false\<close> writes the
  four fields and hands back the document as it was; the status test comes after.
\<close>

definition reject_pirep_server_js ::
  "store \<Rightarrow> oid \<Rightarrow> oid \<Rightarrow> int \<Rightarrow> string \<Rightarrow> (denial + unit) \<times> store" where
  "reject_pirep_server_js db pirepId reviewer now reason =
     (if reason = [] then (Inl ReasonRequired, db)
      else
        (case findById (pireps db) pirepId of
           None \<Rightarrow> (Inl PirepNotFound, db)
         | Some pr \<Rightarrow>
             (let db' = db\<lparr>pireps :=
                             save_doc (pireps db) pirepId
                               (pr\<lparr>status := REJECTED, rejectionReason := Some reason,
                                   reviewedBy := Some reviewer, reviewedAt := Some now\<rparr>)\<rparr>
              in if status pr \<noteq> PENDING then (Inl (AlreadyReviewed (status pr)), db')
                 else (Inr (), db'))))"

section \<open>Duty lifecycle\<close>

text \<open>\<open>Math.ceil(ms / (60 * 1000))\<close> on whole milliseconds.\<close>

definition ceil_minutes :: "int \<Rightarrow> int" where
  "ceil_minutes ms = - ((- ms) div (60 * 1000))"

text \<open>
  \<open>POST /api/duty/start\<close>.  \<open>now\<close> is the clock of the request and \<open>oneMonthAgo\<close>
  the instant that the calendar arithmetic \<open>setMonth(getMonth() - 1)\<close> makes of it.
  The monthly reset is written to the loaded document and reaches the store only
  with the \<open>save\<close> of an accepted request.
\<close>

definition start_duty ::
  "store \<Rightarrow> oid \<Rightarrow> oid \<Rightarrow> int \<Rightarrow> int \<Rightarrow> (denial + roster) \<times> store" where
  "start_duty db userId rosterId now oneMonthAgo =
     (case findById (rosters db) rosterId of
        None \<Rightarrow> (Inl RosterNotFound, db)
      | Some r \<Rightarrow>
          (case users db userId of
             None \<Rightarrow> (Inl ServerError, db)
           | Some u \<Rightarrow>
               if dutyStatus u = ON_DUTY then (Inl AlreadyOnDuty, db)
               else if (case lastDutyOff u of
                          None \<Rightarrow> False
                        | Some t \<Rightarrow> now - t < MIN_REST_PERIOD)
               then (Inl (CrewRestRequired
                            (ceil_minutes (MIN_REST_PERIOD - (now - the (lastDutyOff u))))), db)
               else
                 (let u1 = (if lastHourReset u < oneMonthAgo
                            then u\<lparr>monthlyFlightHours := 0, lastHourReset := now\<rparr>
                            else u)
                  in if monthlyFlightHours u1 + totalFlightTime r > MAX_MONTHLY_FLIGHT_HOURS
                     then (Inl MonthlyLimit, db)
                     else if dailyFlightHours u1 + totalFlightTime r > MAX_DAILY_FLIGHT_HOURS
                     then (Inl DailyLimit, db)
                     else
                       (case find (\<lambda>l. \<not> canFlyLeg (rank u1) (getLegRequiredRank l)) (legs r) of
                          Some overRankLeg \<Rightarrow>
                            (Inl (OverRank (flightNumber overRankLeg)
                                    (getLegRequiredRank overRankLeg)), db)
                        | None \<Rightarrow>
                            (Inr r,
                             db\<lparr>users := (users db)
                                  (userId \<mapsto> u1\<lparr>dutyStatus := ON_DUTY,
                                               currentRoster := Some rosterId,
                                               lastDutyStart := Some now\<rparr>)\<rparr>)))))"



section \<open>Filing a flight report\<close>

record pirep_body =
  body_flightNumber :: string
  body_departure :: string
  body_arrival :: string
  body_aircraft :: string
  body_flightTime :: rat
  body_remarks :: string

text \<open>
  \<open>POST /api/pireps\<close> of \<open>server.js\<close>.  The leg of the roster is found with all
  three fields upper-cased on both sides; the query for an earlier report of the leg
  compares \<open>rosterLeg.flightNumber\<close> with the flight number as it was submitted, and
  the new report stores it as it was submitted.  The schema trims and upper-cases
  the two airports of the new document.  The result is the identifier of the new
  report.  The latest revision adds the verification image, the rank check and the
  multiplier flag to the route; its query for an earlier report is the same.
\<close>

definition file_report_server_js :: "store \<Rightarrow> oid \<Rightarrow> pirep_body \<Rightarrow> (denial + oid) \<times> store" where
  "file_report_server_js db userId body =
     (if body_flightNumber body = [] \<or> body_departure body = [] \<or> body_arrival body = []
         \<or> body_aircraft body = [] \<or> body_flightTime body = 0
      then (Inl MissingDetails, db)
      else
        (case users db userId of
           None \<Rightarrow> (Inl PilotNotFound, db)
         | Some p \<Rightarrow>
             (let newPirepData =
                    \<lparr>pilot = userId,
                     pirep_flightNumber = body_flightNumber body,
                     pirep_departure = toUpperCase (trim (body_departure body)),
                     pirep_arrival = toUpperCase (trim (body_arrival body)),
                     pirep_aircraft = body_aircraft body,
                     pirep_flightTime = body_flightTime body,
                     status = PENDING,
                     reviewedBy = None,
                     rejectionReason = None,
                     reviewedAt = None,
                     verificationImageUrl = None,
                     isMultiplierEligible = False,
                     rosterLeg = None\<rparr>;
                  saved = (\<lambda>d. (Inr (next_id db),
                                 db\<lparr>pireps := insertMany [d] (next_id db) (pireps db),
                                    next_id := next_id db + 1\<rparr>))
              in if dutyStatus p = ON_DUTY
                 then
                   (case currentRoster p of
                      None \<Rightarrow> (Inl NoRosterAssigned, db)
                    | Some rosterId \<Rightarrow>
                        (case findById (rosters db) rosterId of
                           None \<Rightarrow> (Inl ServerError, db)
                         | Some r \<Rightarrow>
                             (case find (\<lambda>l. toUpperCase (flightNumber l)
                                                = toUpperCase (body_flightNumber body)
                                              \<and> toUpperCase (departure l)
                                                = toUpperCase (body_departure body)
                                              \<and> toUpperCase (arrival l)
                                                = toUpperCase (body_arrival body))
                                     (legs r) of
                                None \<Rightarrow> (Inl LegNotInRoster, db)
                              | Some l \<Rightarrow>
                                  if list_ex (\<lambda>(i, pr). pilot pr = userId
                                                \<and> rosterLeg pr
                                                  = Some (rosterId, body_flightNumber body))
                                       (pireps db)
                                  then (Inl DuplicateLeg, db)
                                  else saved (newPirepData
                                                \<lparr>rosterLeg :=
                                                   Some (rosterId, body_flightNumber body)\<rparr>))))
                 else saved newPirepData)))"

section \<open>Predicates of the properties\<close>

text \<open>Each leg of the list starts where the one before it ends.\<close>

fun connected :: "leg list \<Rightarrow> bool" where
  "connected (a # b # ls) = (arrival a = departure b \<and> connected (b # ls))"
| "connected [a] = True"
| "connected [] = True"

definition roster_ok :: "roster \<Rightarrow> bool" where
  "roster_ok R = (2 \<le> length (legs R) \<and> connected (legs R) \<and>
      totalFlightTime R = sum_list (map flightTime (legs R)) \<and>
      totalFlightTime R \<le> MAX_DAILY_FLIGHT_HOURS)"

text \<open>What the language promises of \<open>Math.random\<close>.\<close>

definition rnd_ok :: "(nat \<Rightarrow> rat) \<Rightarrow> bool" where
  "rnd_ok rnd = (\<forall>k. 0 \<le> rnd k \<and> rnd k < 1)"

definition grouped :: "(string \<times> leg list) list \<Rightarrow> bool" where
  "grouped lbd = (\<forall>(k, ls)\<in>set lbd. \<forall>l\<in>set ls. departure l = k)"

text \<open>
  The monthly hours as the quota test of start-duty reads them, after the reset that
  is due when the last reset is more than a month old; and whether the rest since the
  last duty is over (a pilot who never ended a duty has nothing to rest from).
\<close>

definition monthly_at_check :: "user \<Rightarrow> int \<Rightarrow> rat" where
  "monthly_at_check u oneMonthAgo = (if lastHourReset u < oneMonthAgo then 0 else monthlyFlightHours u)"

definition rest_over :: "user \<Rightarrow> int \<Rightarrow> bool" where
  "rest_over u now = (case lastDutyOff u of None \<Rightarrow> True | Some t \<Rightarrow> MIN_REST_PERIOD \<le> now - t)"

text \<open>The range in which the generator draws a multiplier, within the schema's bounds.\<close>

definition multiplier_ok :: "roster \<Rightarrow> bool" where
  "multiplier_ok R = (11 / 10 \<le> multiplier R \<and> multiplier R \<le> 3 / 2)"

text \<open>The tier whose threshold the hours reach, highest first.\<close>

definition rank_for_hours :: "rat \<Rightarrow> string" where
  "rank_for_hours h =
     (if 2300 \<le> h then ''Blue Legacy Commander''
      else if 1800 \<le> h then ''IndGo SkyMaster''
      else if 1400 \<le> h then ''Chief Flight Instructor''
      else if 1000 \<le> h then ''Line Instructor''
      else if 750 \<le> h then ''Blue Eagle''
      else if 500 \<le> h then ''Elite Captain''
      else if 300 \<le> h then ''Command Captain''
      else if 180 \<le> h then ''Skyline Officer''
      else if 100 \<le> h then ''Route Explorer''
      else if 50 \<le> h then ''Skyline Observer''
      else ''IndGo Cadet'')"

section \<open>Sample data\<close>

definition sample_legs :: "leg list" where
  "sample_legs =
     [\<lparr>flightNumber = ''6E101'', departure = ''VIDP'', arrival = ''VABB'', aircraft = ''A320'',
       flightTime = 2, rankUnlock = Some ''IndGo Cadet'', operator = Some ''IndGo Air Virtual''\<rparr>,
      \<lparr>flightNumber = ''6E202'', departure = ''VABB'', arrival = ''VOBL'', aircraft = ''A321'',
       flightTime = 3, rankUnlock = Some ''Skyline Observer'', operator = Some ''IndGo Air Virtual''\<rparr>]"

definition sample_rnd :: "nat \<Rightarrow> rat" where
  "sample_rnd k = 1 / 2"



definition light_leg :: leg where
  "light_leg = \<lparr>flightNumber = ''6E900'', departure = ''VIDP'', arrival = ''VIJP'',
      aircraft = ''Cessna 172'', flightTime = 1, rankUnlock = Some ''Unknown'',
      operator = Some ''IndGo Air Virtual''\<rparr>"

definition light_roster :: roster where
  "light_roster = \<lparr>name = ''VIDP Sector Duty #1'', hub = ''VIDP'',
      legs = [light_leg, light_leg\<lparr>flightNumber := ''6E901'', departure := ''VIJP'',
                                    arrival := ''VIDP''\<rparr>],
      totalFlightTime = 2, multiplier = 6 / 5, isAvailable = True, isGenerated = True,
      createdBy = None\<rparr>"

definition rested_pilot :: user where
  "rested_pilot = \<lparr>rank = ''IndGo Cadet'', flightHours = 0, dutyStatus = ON_REST,
      currentRoster = None, lastDutyStart = None, lastDutyOff = None,
      dailyFlightHours = 0, monthlyFlightHours = 0, lastHourReset = 0,
      lastKnownAirport = ''VIDP'', lastDutyAirport = None\<rparr>"

definition senior_store :: store where
  "senior_store = \<lparr>users = [1 \<mapsto> rested_pilot\<lparr>rank := ''Blue Legacy Commander''\<rparr>],
      rosters = [(7, light_roster)], pireps = [], next_id = 100\<rparr>"

definition duty_roster :: roster where
  "duty_roster = \<lparr>name = ''VIDP Sector Duty #1'', hub = ''VIDP'', legs = sample_legs,
      totalFlightTime = 5, multiplier = 6 / 5, isAvailable = True, isGenerated = True,
      createdBy = None\<rparr>"

definition on_duty_pilot :: user where
  "on_duty_pilot = rested_pilot\<lparr>dutyStatus := ON_DUTY, currentRoster := Some 5,
      lastDutyStart := Some 1000\<rparr>"

definition first_leg_report :: pirep where
  "first_leg_report = \<lparr>pilot = 1, pirep_flightNumber = ''6E101'', pirep_departure = ''VIDP'',
      pirep_arrival = ''VABB'', pirep_aircraft = ''A320'', pirep_flightTime = 2,
      status = PENDING, reviewedBy = None, rejectionReason = None, reviewedAt = None,
      verificationImageUrl = None, isMultiplierEligible = False,
      rosterLeg = Some (5, ''6E101'')\<rparr>"

definition final_leg_report :: pirep where
  "final_leg_report = \<lparr>pilot = 1, pirep_flightNumber = ''6E202'', pirep_departure = ''VABB'',
      pirep_arrival = ''VOBL'', pirep_aircraft = ''A321'', pirep_flightTime = 3,
      status = PENDING, reviewedBy = None, rejectionReason = None, reviewedAt = None,
      verificationImageUrl = None, isMultiplierEligible = True,
      rosterLeg = Some (5, ''6E202'')\<rparr>"

definition review_store :: store where
  "review_store = \<lparr>users = [1 \<mapsto> on_duty_pilot], rosters = [(5, duty_roster)],
      pireps = [(10, first_leg_report), (11, final_leg_report)], next_id = 100\<rparr>"

definition hand_ranked_store :: store where
  "hand_ranked_store =
     review_store\<lparr>users := (users review_store)(1 \<mapsto> on_duty_pilot\<lparr>rank := ''Blue Eagle''\<rparr>)\<rparr>"

definition quota_pilot :: "int option \<Rightarrow> rat \<Rightarrow> rat \<Rightarrow> user" where
  "quota_pilot off monthly daily =
     rested_pilot\<lparr>rank := ''Route Explorer'', lastDutyOff := off,
                  monthlyFlightHours := monthly, dailyFlightHours := daily,
                  lastHourReset := 60000000\<rparr>"

definition quota_store :: "user \<Rightarrow> store" where
  "quota_store p = \<lparr>users = [1 \<mapsto> p], rosters = [(5, duty_roster)], pireps = [], next_id = 100\<rparr>"


definition filing_store :: store where
  "filing_store = review_store\<lparr>pireps := []\<rparr>"

definition leg_body :: "string \<Rightarrow> pirep_body" where
  "leg_body fn = \<lparr>body_flightNumber = fn, body_departure = ''VIDP'', body_arrival = ''VABB'',
      body_aircraft = ''A320'', body_flightTime = 2, body_remarks = []\<rparr>"

definition filed_report :: "string \<Rightarrow> pirep" where
  "filed_report fn = first_leg_report\<lparr>pirep_flightNumber := fn, rosterLeg := Some (5, fn)\<rparr>"

definition reviewed_store :: store where
  "reviewed_store =
     review_store\<lparr>pireps := [(10, first_leg_report\<lparr>status := APPROVED, reviewedBy := Some 2,
                                                   reviewedAt := Some 5000\<rparr>),
                              (11, final_leg_report)]\<rparr>"





section \<open>Generated rosters are well formed\<close>

lemma group_push_grouped: "grouped acc \<Longrightarrow> grouped (group_push acc l)"
  by (induction acc l rule: group_push.induct) (auto simp: grouped_def)

lemma foldl_group_push_grouped: "grouped acc \<Longrightarrow> grouped (foldl group_push acc ls)"
  by (induction ls arbitrary: acc) (simp_all add: group_push_grouped)

lemma legsByDeparture_grouped: "grouped (legsByDeparture allLegs)"
  unfolding legsByDeparture_def by (rule foldl_group_push_grouped) (simp add: grouped_def)

lemma legsAt_departure: "grouped lbd \<Longrightarrow> l \<in> set (legsAt lbd a) \<Longrightarrow> departure l = a"
proof -
  assume g: "grouped lbd" and m: "l \<in> set (legsAt lbd a)"
  then obtain ls where ls: "map_of lbd a = Some ls" "l \<in> set ls"
    by (cases "map_of lbd a") (auto simp: legsAt_def)
  from map_of_SomeD[OF ls(1)] g ls(2) show ?thesis
    by (auto simp: grouped_def)
qed

lemma connected_snoc:
  "connected ls \<Longrightarrow> (ls \<noteq> [] \<Longrightarrow> arrival (last ls) = departure x) \<Longrightarrow> connected (ls @ [x])"
  by (induction ls rule: connected.induct) auto

lemma connected_nth:
  "connected ls \<Longrightarrow> Suc i < length ls \<Longrightarrow> arrival (ls ! i) = departure (ls ! Suc i)"
proof (induction ls arbitrary: i rule: connected.induct)
  case (1 a b ls)
  then show ?case by (cases i) auto
qed simp_all

lemma at_index_mem: "at_index xs i = Some x \<Longrightarrow> x \<in> set xs"
  by (auto simp: at_index_def split: if_splits)

lemma random_below_range:
  assumes "rnd_ok rnd" "0 < n"
  shows "0 \<le> random_below rnd k n \<and> random_below rnd k n < int n"
proof -
  from assms have r: "0 \<le> rnd k" "rnd k < 1" by (auto simp: rnd_ok_def)
  have "0 \<le> rnd k * of_nat n" using r by simp
  moreover have "rnd k * of_nat n < of_nat n" using r assms(2) by simp
  ultimately show ?thesis
    unfolding random_below_def by (simp add: floor_less_iff)
qed

lemma add_legs_inv:
  assumes "grouped lbd"
    and "add_legs lbd rnd n rl cur tot used k = Some (rl', tot', k')"
    and "connected rl" and "rl \<noteq> [] \<Longrightarrow> arrival (last rl) = cur"
    and "tot = sum_list (map flightTime rl)" and "tot \<le> MAX_DAILY_FLIGHT_HOURS"
  shows "connected rl' \<and> tot' = sum_list (map flightTime rl') \<and> tot' \<le> MAX_DAILY_FLIGHT_HOURS"
  using assms(2-)
proof (induction n arbitrary: rl cur tot used k)
  case 0
  then show ?case by auto
next
  case (Suc n)
  let ?poss = "filter (\<lambda>l. flightNumber l \<notin> set used) (legsAt lbd cur)"
  show ?case
  proof (cases "?poss = []")
    case True
    with Suc.prems show ?thesis by auto
  next
    case False
    from Suc.prems(1) False obtain nextLeg where
      nl: "at_index ?poss (random_below rnd k (length ?poss)) = Some nextLeg"
      by (auto simp: Let_def split: option.splits)
    from at_index_mem[OF nl] have "nextLeg \<in> set (legsAt lbd cur)" by simp
    with assms(1) have dep: "departure nextLeg = cur" by (rule legsAt_departure)
    show ?thesis
    proof (cases "tot + flightTime nextLeg > MAX_DAILY_FLIGHT_HOURS")
      case True
      with Suc.prems False nl show ?thesis by (auto simp: Let_def)
    next
      case over: False
      with Suc.prems(1) False nl have
        rec: "add_legs lbd rnd n (rl @ [nextLeg]) (arrival nextLeg) (tot + flightTime nextLeg)
                (flightNumber nextLeg # used) (k + 1) = Some (rl', tot', k')"
        by (simp add: Let_def)
      show ?thesis
      proof (rule Suc.IH[OF rec])
        show "connected (rl @ [nextLeg])"
          using Suc.prems(2,3) dep by (intro connected_snoc) auto
        show "tot + flightTime nextLeg = sum_list (map flightTime (rl @ [nextLeg]))"
          using Suc.prems(4) by simp
        show "tot + flightTime nextLeg \<le> MAX_DAILY_FLIGHT_HOURS" using over by simp
      qed simp
    qed
  qed
qed

lemma add_legs_returns:
  assumes "rnd_ok rnd"
  shows "\<exists>res. add_legs lbd rnd n rl cur tot used k = Some res"
proof (induction n arbitrary: rl cur tot used k)
  case 0
  then show ?case by simp
next
  case (Suc n)
  let ?poss = "filter (\<lambda>l. flightNumber l \<notin> set used) (legsAt lbd cur)"
  show ?case
  proof (cases "?poss = []")
    case True
    then show ?thesis by simp
  next
    case False
    then have "0 < length ?poss" by simp
    from random_below_range[OF assms this, of k]
    obtain nextLeg where "at_index ?poss (random_below rnd k (length ?poss)) = Some nextLeg"
      by (auto simp: at_index_def)
    with False Suc.IH show ?thesis by (simp add: Let_def)
  qed
qed

lemma candidate_ok:
  assumes "rnd_ok rnd" "grouped lbd"
  shows "\<exists>rs k'. candidate lbd rnd a i k = Some (rs, k') \<and> (\<forall>R\<in>set rs. roster_ok R)"
proof -
  obtain rl tot k' where
    al: "add_legs lbd rnd (nat (random_below rnd k 3 + 2)) [] a 0 [] (k + 1) = Some (rl, tot, k')"
    using add_legs_returns[OF assms(1)] by (metis prod_cases3)
  have "connected rl \<and> tot = sum_list (map flightTime rl) \<and> tot \<le> MAX_DAILY_FLIGHT_HOURS"
    by (rule add_legs_inv[OF assms(2) al]) (simp_all add: MAX_DAILY_FLIGHT_HOURS_def)
  with al show ?thesis
    by (simp add: candidate_def Let_def roster_ok_def)
qed

lemma candidates_ok:
  assumes "rnd_ok rnd" "grouped lbd"
  shows "\<exists>rs k'. candidates lbd rnd a js k = Some (rs, k') \<and> (\<forall>R\<in>set rs. roster_ok R)"
proof (induction js arbitrary: k)
  case Nil
  then show ?case by simp
next
  case (Cons j js)
  from candidate_ok[OF assms] obtain rs k1 where
    c: "candidate lbd rnd a j k = Some (rs, k1)" "\<forall>R\<in>set rs. roster_ok R" by blast
  from Cons.IH obtain rs' k2 where
    r: "candidates lbd rnd a js k1 = Some (rs', k2)" "\<forall>R\<in>set rs'. roster_ok R" by blast
  from c r show ?case by auto
qed

lemma all_airports_ok:
  assumes "rnd_ok rnd" "grouped lbd"
  shows "\<exists>rs k'. all_airports lbd rnd as k = Some (rs, k') \<and> (\<forall>R\<in>set rs. roster_ok R)"
proof (induction as arbitrary: k)
  case Nil
  then show ?case by simp
next
  case (Cons a as)
  obtain rs k1 where
    c: "(if map_of lbd a = None then Some ([], k)
         else candidates lbd rnd a [0 ..< rosterCountPerAirport] k) = Some (rs, k1)"
       "\<forall>R\<in>set rs. roster_ok R"
    using candidates_ok[OF assms, of a "[0 ..< rosterCountPerAirport]" k] by (cases "map_of lbd a = None") auto
  from Cons.IH obtain rs' k2 where
    r: "all_airports lbd rnd as k1 = Some (rs', k2)" "\<forall>R\<in>set rs'. roster_ok R" by blast
  from c r show ?case by auto
qed

text \<open>
  C1.  With draws of \<open>Math.random\<close> in the unit interval, the synthesizer returns,
  and every roster it returns has at least two legs, each leg arriving where the next
  one departs, a stored total equal to the sum of the flight times of its legs
  (in exact arithmetic), and a total of at most ten hours.
\<close>

theorem generated_rosters_well_formed:
  assumes "\<forall>k. 0 \<le> rnd k \<and> rnd k < 1"
  shows "\<exists>rs. generatedRosters allLegs rnd = Some rs \<and>
           (\<forall>R\<in>set rs.
              2 \<le> length (legs R) \<and>
              (\<forall>i. Suc i < length (legs R) \<longrightarrow>
                   arrival (legs R ! i) = departure (legs R ! Suc i)) \<and>
              totalFlightTime R = sum_list (map flightTime (legs R)) \<and>
              totalFlightTime R \<le> MAX_DAILY_FLIGHT_HOURS)"
proof -
  from assms have ok: "rnd_ok rnd" by (simp add: rnd_ok_def)
  from all_airports_ok[OF ok legsByDeparture_grouped]
  obtain rs k' where
    "all_airports (legsByDeparture allLegs) rnd (map fst (legsByDeparture allLegs)) 0 = Some (rs, k')"
    "\<forall>R\<in>set rs. roster_ok R" by blast
  then show ?thesis
    by (auto simp: generatedRosters_def Let_def roster_ok_def connected_nth)
qed

text \<open>The sample sheet with every draw at one half: three rosters of two legs.\<close>

theorem generated_rosters_well_formed_witness:
  "(0::rat) \<le> 1 / 2 \<and> (1 / 2 ::rat) < 1 \<and>
   (\<exists>R rs. generatedRosters sample_legs sample_rnd = Some (R # rs) \<and>
      map flightNumber (legs R) = [''6E101'', ''6E202''] \<and>
      2 \<le> length (legs R) \<and>
      arrival (legs R ! 0) = departure (legs R ! Suc 0) \<and>
      totalFlightTime R = sum_list (map flightTime (legs R)) \<and>
      totalFlightTime R \<le> MAX_DAILY_FLIGHT_HOURS)"
proof -
  have r: "\<forall>k. 0 \<le> sample_rnd k \<and> sample_rnd k < 1" by (simp add: sample_rnd_def)
  have ev: "map (\<lambda>R. map flightNumber (legs R)) (the (generatedRosters sample_legs sample_rnd))
            = [[''6E101'', ''6E202''], [''6E101'', ''6E202''], [''6E101'', ''6E202'']]"
    by code_simp
  from generated_rosters_well_formed[OF r, of sample_legs] obtain rs where
    rs: "generatedRosters sample_legs sample_rnd = Some rs"
        "\<forall>R\<in>set rs.
              2 \<le> length (legs R) \<and>
              (\<forall>i. Suc i < length (legs R) \<longrightarrow>
                   arrival (legs R ! i) = departure (legs R ! Suc i)) \<and>
              totalFlightTime R = sum_list (map flightTime (legs R)) \<and>
              totalFlightTime R \<le> MAX_DAILY_FLIGHT_HOURS" by blast
  from ev rs(1) obtain R rs' where c: "rs = R # rs'" "map flightNumber (legs R) = [''6E101'', ''6E202'']"
    by (cases rs) auto
  with rs(2) have "2 \<le> length (legs R)"
      "arrival (legs R ! 0) = departure (legs R ! Suc 0)"
      "totalFlightTime R = sum_list (map flightTime (legs R))"
      "totalFlightTime R \<le> MAX_DAILY_FLIGHT_HOURS" by auto
  with c rs(1) show ?thesis by simp
qed

text \<open>
  The multiplier that the synthesizer gives a roster lies between 1.10 and 1.50, so a
  generated roster meets the bound of the roster schema (between 1 and 2).
\<close>

lemma toFixed2_range:
  assumes "11 / 10 \<le> x" "x < 3 / 2"
  shows "11 / 10 \<le> toFixed2 x \<and> toFixed2 x \<le> 3 / 2"
proof -
  have "(110::int) \<le> \<lfloor>x * 100 + 1 / 2\<rfloor>" using assms(1) by (simp add: le_floor_iff)
  moreover have "\<lfloor>x * 100 + 1 / 2\<rfloor> \<le> (150::int)" using assms(2) by (simp add: floor_le_iff)
  ultimately have "(110::rat) \<le> of_int \<lfloor>x * 100 + 1 / 2\<rfloor>" "of_int \<lfloor>x * 100 + 1 / 2\<rfloor> \<le> (150::rat)"
    by linarith+
  then show ?thesis by (simp add: toFixed2_def)
qed

lemma candidate_multiplier:
  assumes "rnd_ok rnd" "candidate lbd rnd a i k = Some (rs, k')"
  shows "\<forall>R\<in>set rs. multiplier_ok R"
proof -
  have "11 / 10 \<le> 11 / 10 + rnd j * (4 / 10) \<and> 11 / 10 + rnd j * (4 / 10) < 3 / 2" for j
  proof -
    from assms(1) have "0 \<le> rnd j" "rnd j < 1" by (auto simp: rnd_ok_def)
    then show ?thesis by simp
  qed
  then have "multiplier_ok \<lparr>name = n, hub = h, legs = ls, totalFlightTime = t,
       multiplier = toFixed2 (11 / 10 + rnd j * (4 / 10)), isAvailable = av, isGenerated = g,
       createdBy = c\<rparr>" for n h ls t j av g c
    using toFixed2_range by (simp add: multiplier_ok_def)
  with assms(2) show ?thesis
    by (auto simp: candidate_def Let_def split: option.splits if_splits)
qed

lemma candidates_multiplier:
  assumes "rnd_ok rnd"
  shows "candidates lbd rnd a js k = Some (rs, k') \<Longrightarrow> \<forall>R\<in>set rs. multiplier_ok R"
proof (induction js arbitrary: k rs k')
  case Nil
  then show ?case by simp
next
  case (Cons j js)
  then show ?case
    by (auto split: option.splits dest!: candidate_multiplier[OF assms])
qed

lemma all_airports_multiplier:
  assumes "rnd_ok rnd"
  shows "all_airports lbd rnd as k = Some (rs, k') \<Longrightarrow> \<forall>R\<in>set rs. multiplier_ok R"
proof (induction as arbitrary: k rs k')
  case Nil
  then show ?case by simp
next
  case (Cons a as)
  then show ?case
    by (auto split: option.splits if_splits dest!: candidates_multiplier[OF assms])
qed

lemma generated_multiplier_in_schema:
  assumes "rnd_ok rnd" "generatedRosters allLegs rnd = Some rs" "R \<in> set rs"
  shows "11 / 10 \<le> multiplier R \<and> multiplier R \<le> 3 / 2"
  using assms all_airports_multiplier[OF assms(1)]
  by (fastforce simp: generatedRosters_def Let_def multiplier_ok_def)

section \<open>Hours credited by an approval\<close>

lemma checkAndApplyRankUpdate_hours:
  "checkAndApplyRankUpdate p = (x, p') \<Longrightarrow>
   flightHours p' = flightHours p \<and> monthlyFlightHours p' = monthlyFlightHours p \<and>
   dailyFlightHours p' = dailyFlightHours p"
  by (auto simp: checkAndApplyRankUpdate_def Let_def split: if_splits)

lemma findById_mem: "findById coll i = Some d \<Longrightarrow> (i, d) \<in> set coll"
  by (simp add: findById_def map_of_SomeD)

lemma approve_credits:
  assumes "findById (pireps db) pirepId = Some pr" "status pr = PENDING"
    and "users db (pilot pr) = Some p"
    and "fst (hoursToAdd db pr) = h"
  shows "\<exists>a db' p'. approve_pirep db pirepId reviewer now = (Inr a, db') \<and>
           users db' (pilot pr) = Some p' \<and> hoursAwarded a = h \<and>
           flightHours p' = flightHours p + h \<and>
           monthlyFlightHours p' = monthlyFlightHours p + h \<and>
           dailyFlightHours p' = dailyFlightHours p + h"
proof -
  let ?p1 = "p\<lparr>flightHours := flightHours p + h,
                monthlyFlightHours := monthlyFlightHours p + h,
                dailyFlightHours := dailyFlightHours p + h,
                lastKnownAirport := pirep_arrival pr\<rparr>"
  obtain m where hm: "hoursToAdd db pr = (h, m)" using assms(4) by (cases "hoursToAdd db pr") simp
  obtain x p2 where c: "checkAndApplyRankUpdate ?p1 = (x, p2)" by (cases "checkAndApplyRankUpdate ?p1")
  from checkAndApplyRankUpdate_hours[OF c] have
    "flightHours p2 = flightHours p + h" "monthlyFlightHours p2 = monthlyFlightHours p + h"
    "dailyFlightHours p2 = dailyFlightHours p + h" by simp_all
  with assms(1-3) hm c show ?thesis
    by (simp add: approve_pirep_def Let_def)
qed

text \<open>
  C2.  The rosters of the store obey their schema (a multiplier of at least one).
  Approving a pending report of an existing pilot adds to the pilot's cumulative,
  monthly and daily hours the claimed time times the multiplier of the linked roster
  when the report is multiplier-eligible and that roster is still in the store, and
  exactly the claimed time when the report is not eligible or its roster cannot be
  found.
\<close>

theorem approval_awards_hours:
  assumes "findById (pireps db) pirepId = Some pr" and "status pr = PENDING"
    and "users db (pilot pr) = Some p"
    and "\<forall>(i, r)\<in>set (rosters db). 1 \<le> multiplier r"
  shows "(isMultiplierEligible pr \<and> rosterLeg pr = Some (rosterId, fn) \<and>
          findById (rosters db) rosterId = Some r \<longrightarrow>
            (\<exists>a db' p'. approve_pirep db pirepId reviewer now = (Inr a, db') \<and>
               users db' (pilot pr) = Some p' \<and>
               hoursAwarded a = pirep_flightTime pr * multiplier r \<and>
               flightHours p' = flightHours p + pirep_flightTime pr * multiplier r \<and>
               monthlyFlightHours p' = monthlyFlightHours p + pirep_flightTime pr * multiplier r \<and>
               dailyFlightHours p' = dailyFlightHours p + pirep_flightTime pr * multiplier r)) \<and>
         (\<not> isMultiplierEligible pr \<or> rosterLeg pr = None \<or>
          (rosterLeg pr = Some (rosterId, fn) \<and> findById (rosters db) rosterId = None) \<longrightarrow>
            (\<exists>a db' p'. approve_pirep db pirepId reviewer now = (Inr a, db') \<and>
               users db' (pilot pr) = Some p' \<and>
               hoursAwarded a = pirep_flightTime pr \<and>
               flightHours p' = flightHours p + pirep_flightTime pr \<and>
               monthlyFlightHours p' = monthlyFlightHours p + pirep_flightTime pr \<and>
               dailyFlightHours p' = dailyFlightHours p + pirep_flightTime pr))"
proof (intro conjI impI)
  assume e: "isMultiplierEligible pr \<and> rosterLeg pr = Some (rosterId, fn) \<and>
          findById (rosters db) rosterId = Some r"
  then have "(rosterId, r) \<in> set (rosters db)" by (simp add: findById_mem)
  with assms(4) have "1 \<le> multiplier r" by auto
  with e have "fst (hoursToAdd db pr) = pirep_flightTime pr * multiplier r"
    by (auto simp: hoursToAdd_def)
  then show "\<exists>a db' p'. approve_pirep db pirepId reviewer now = (Inr a, db') \<and>
               users db' (pilot pr) = Some p' \<and>
               hoursAwarded a = pirep_flightTime pr * multiplier r \<and>
               flightHours p' = flightHours p + pirep_flightTime pr * multiplier r \<and>
               monthlyFlightHours p' = monthlyFlightHours p + pirep_flightTime pr * multiplier r \<and>
               dailyFlightHours p' = dailyFlightHours p + pirep_flightTime pr * multiplier r"
    by (rule approve_credits[OF assms(1-3)])
next
  assume "\<not> isMultiplierEligible pr \<or> rosterLeg pr = None \<or>
          (rosterLeg pr = Some (rosterId, fn) \<and> findById (rosters db) rosterId = None)"
  then have "fst (hoursToAdd db pr) = pirep_flightTime pr"
    by (auto simp: hoursToAdd_def)
  then show "\<exists>a db' p'. approve_pirep db pirepId reviewer now = (Inr a, db') \<and>
               users db' (pilot pr) = Some p' \<and>
               hoursAwarded a = pirep_flightTime pr \<and>
               flightHours p' = flightHours p + pirep_flightTime pr \<and>
               monthlyFlightHours p' = monthlyFlightHours p + pirep_flightTime pr \<and>
               dailyFlightHours p' = dailyFlightHours p + pirep_flightTime pr"
    by (rule approve_credits[OF assms(1-3)])
qed

text \<open>
  A roster of a two-hour and a three-hour leg with multiplier 1.2: the report of the
  final leg earns 3.6 hours, that of the first leg exactly 2.
\<close>

theorem approval_awards_hours_witness:
  "list_all (\<lambda>(i, r). 1 \<le> multiplier r) (rosters review_store) \<and>
   (\<exists>a db' p'. approve_pirep review_store 11 2 5000 = (Inr a, db') \<and>
      users db' 1 = Some p' \<and> hoursAwarded a = 18 / 5 \<and> flightHours p' = 18 / 5 \<and>
      monthlyFlightHours p' = 18 / 5 \<and> dailyFlightHours p' = 18 / 5) \<and>
   (\<exists>a db' p'. approve_pirep review_store 10 2 5000 = (Inr a, db') \<and>
      users db' 1 = Some p' \<and> hoursAwarded a = 2 \<and> flightHours p' = 2 \<and>
      monthlyFlightHours p' = 2 \<and> dailyFlightHours p' = 2)"
proof -
  have s: "\<forall>(i, r)\<in>set (rosters review_store). 1 \<le> multiplier r"
    by (simp add: review_store_def duty_roster_def)
  have f11: "findById (pireps review_store) 11 = Some final_leg_report"
    and f10: "findById (pireps review_store) 10 = Some first_leg_report"
    and r5: "findById (rosters review_store) 5 = Some duty_roster"
    by (simp_all add: review_store_def findById_def)
  have p11: "status final_leg_report = PENDING" "users review_store (pilot final_leg_report) = Some on_duty_pilot"
      "isMultiplierEligible final_leg_report" "rosterLeg final_leg_report = Some (5, ''6E202'')"
      "pilot final_leg_report = 1" "pirep_flightTime final_leg_report = 3"
    by (simp_all add: final_leg_report_def review_store_def)
  have p10: "status first_leg_report = PENDING" "users review_store (pilot first_leg_report) = Some on_duty_pilot"
      "\<not> isMultiplierEligible first_leg_report" "pilot first_leg_report = 1"
      "pirep_flightTime first_leg_report = 2"
    by (simp_all add: first_leg_report_def review_store_def)
  have z: "flightHours on_duty_pilot = 0" "monthlyFlightHours on_duty_pilot = 0"
      "dailyFlightHours on_duty_pilot = 0" "multiplier duty_roster = 6 / 5"
    by (simp_all add: on_duty_pilot_def rested_pilot_def duty_roster_def)
  from approval_awards_hours[OF f11 p11(1,2) s, of 5 "''6E202''" duty_roster 2 5000]
       approval_awards_hours[OF f10 p10(1,2) s, of 5 "''6E101''" duty_roster 2 5000]
  show ?thesis
    using s r5 p11 p10 z by (simp add: list_all_iff)
qed

section \<open>Rank after an approval\<close>

text \<open>
  For a pilot whose rank is the one the hours give, more hours never lower the tier:
  the thresholds rise with the tiers.
\<close>

lemma find_rank_for_hours:
  "0 \<le> h \<Longrightarrow> find (threshold_reached h) (rev pilotRanks) = Some (rank_for_hours h)"
  by (simp add: pilotRanks_def threshold_reached_def rankThresholds_def rank_for_hours_def)

lemma rank_after_check:
  "0 \<le> flightHours p \<Longrightarrow> rank (snd (checkAndApplyRankUpdate p)) = rank_for_hours (flightHours p)"
  by (simp add: checkAndApplyRankUpdate_def find_rank_for_hours Let_def)

lemma rankIndex_rank_for_hours:
  "rankIndex (rank_for_hours h) =
     (if 2300 \<le> h then 10 else if 1800 \<le> h then 9 else if 1400 \<le> h then 8
      else if 1000 \<le> h then 7 else if 750 \<le> h then 6 else if 500 \<le> h then 5
      else if 300 \<le> h then 4 else if 180 \<le> h then 3 else if 100 \<le> h then 2
      else if 50 \<le> h then 1 else 0)"
  by (simp add: rank_for_hours_def rankIndex_def pilotRanks_def trim_def is_space_def)

lemma rank_for_hours_mono:
  "h \<le> h' \<Longrightarrow> rankIndex (rank_for_hours h) \<le> rankIndex (rank_for_hours h')"
  unfolding rankIndex_rank_for_hours by (simp split: if_splits)

lemma promotion_monotone_for_hours_rank:
  assumes "0 \<le> flightHours p" "rank p = rank_for_hours (flightHours p)" "0 \<le> h"
  shows "rankIndex (rank p)
         \<le> rankIndex (rank (snd (checkAndApplyRankUpdate (p\<lparr>flightHours := flightHours p + h\<rparr>))))"
proof -
  have "rank (snd (checkAndApplyRankUpdate (p\<lparr>flightHours := flightHours p + h\<rparr>)))
        = rank_for_hours (flightHours p + h)"
    using assms(1,3) by (simp add: rank_after_check)
  with assms(2,3) show ?thesis by (simp add: rank_for_hours_mono)
qed

lemma hand_ranked: "update_rank review_store 1 ''Blue Eagle'' = (Inr (), hand_ranked_store)"
  by (simp add: update_rank_def hand_ranked_store_def review_store_def pilotRanks_def)

text \<open>
  C3.  The claim is that an approval never lowers the tier of the pilot, whatever the
  rank held before.  A pilot without hours whom a manager has made \<open>Blue Eagle\<close>
  (tier 6) is set back to \<open>IndGo Cadet\<close> (tier 0) by the approval of a two-hour
  report, and the reply announces it as a promotion.
\<close>

theorem approval_demotes_hand_ranked_pilot:
  "update_rank review_store 1 ''Blue Eagle'' = (Inr (), hand_ranked_store) \<and>
   map_option (\<lambda>p. rankIndex (rank p)) (users hand_ranked_store 1) = Some 6 \<and>
   fst (approve_pirep hand_ranked_store 10 2 5000)
     = Inr \<lparr>hoursAwarded = 2, multiplierApplied = 1, promotedTo = Some ''IndGo Cadet''\<rparr> \<and>
   map_option (\<lambda>p. rankIndex (rank p)) (users (snd (approve_pirep hand_ranked_store 10 2 5000)) 1)
     = Some 0"
proof -
  have c: "checkAndApplyRankUpdate
             (on_duty_pilot\<lparr>rank := ''Blue Eagle'', flightHours := 2, monthlyFlightHours := 2,
                            dailyFlightHours := 2, lastKnownAirport := ''VABB''\<rparr>)
           = (Some ''IndGo Cadet'',
              on_duty_pilot\<lparr>rank := ''IndGo Cadet'', flightHours := 2, monthlyFlightHours := 2,
                            dailyFlightHours := 2, lastKnownAirport := ''VABB''\<rparr>)"
    by (simp add: checkAndApplyRankUpdate_def pilotRanks_def threshold_reached_def
        rankThresholds_def on_duty_pilot_def rested_pilot_def Let_def)
  have i6: "rankIndex ''Blue Eagle'' = 6" and i0: "rankIndex ''IndGo Cadet'' = 0"
    by (simp_all add: rankIndex_def pilotRanks_def trim_def is_space_def)
  have a: "approve_pirep hand_ranked_store 10 2 5000
           = (Inr \<lparr>hoursAwarded = 2, multiplierApplied = 1, promotedTo = Some ''IndGo Cadet''\<rparr>,
              hand_ranked_store\<lparr>users := (users hand_ranked_store)
                  (1 \<mapsto> on_duty_pilot\<lparr>rank := ''IndGo Cadet'', flightHours := 2,
                       monthlyFlightHours := 2, dailyFlightHours := 2,
                       lastKnownAirport := ''VABB''\<rparr>),
                pireps := save_doc (pireps hand_ranked_store) 10
                  (first_leg_report\<lparr>status := APPROVED, reviewedBy := Some 2,
                      reviewedAt := Some 5000, verificationImageUrl := None\<rparr>)\<rparr>)"
    using c
    by (simp add: approve_pirep_def hand_ranked_store_def review_store_def findById_def
        first_leg_report_def hoursToAdd_def on_duty_pilot_def rested_pilot_def Let_def)
  have b: "users hand_ranked_store 1 = Some (on_duty_pilot\<lparr>rank := ''Blue Eagle''\<rparr>)"
    by (simp add: hand_ranked_store_def)
  show ?thesis
    unfolding a b using hand_ranked by (simp add: i0 i6)
qed

section \<open>Starting a duty\<close>

lemma start_duty_resting:
  assumes "findById (rosters db) rosterId = Some r" "users db userId = Some u"
    "dutyStatus u \<noteq> ON_DUTY" "lastDutyOff u = Some t" "now - t < MIN_REST_PERIOD"
  shows "start_duty db userId rosterId now oneMonthAgo
         = (Inl (CrewRestRequired (ceil_minutes (MIN_REST_PERIOD - (now - t)))), db)"
  using assms by (simp add: start_duty_def)

lemma start_duty_rested:
  assumes "findById (rosters db) rosterId = Some r" "users db userId = Some u"
    "dutyStatus u \<noteq> ON_DUTY" "rest_over u now"
  shows "start_duty db userId rosterId now oneMonthAgo =
     (if monthly_at_check u oneMonthAgo + totalFlightTime r > MAX_MONTHLY_FLIGHT_HOURS
      then (Inl MonthlyLimit, db)
      else if dailyFlightHours u + totalFlightTime r > MAX_DAILY_FLIGHT_HOURS
      then (Inl DailyLimit, db)
      else (case find (\<lambda>l. \<not> canFlyLeg (rank u) (getLegRequiredRank l)) (legs r) of
              Some l \<Rightarrow> (Inl (OverRank (flightNumber l) (getLegRequiredRank l)), db)
            | None \<Rightarrow>
                (Inr r,
                 db\<lparr>users := (users db)
                      (userId \<mapsto> (if lastHourReset u < oneMonthAgo
                                   then u\<lparr>monthlyFlightHours := 0, lastHourReset := now\<rparr>
                                   else u)
                                  \<lparr>dutyStatus := ON_DUTY, currentRoster := Some rosterId,
                                   lastDutyStart := Some now\<rparr>)\<rparr>)))"
  using assms
  by (auto simp: start_duty_def rest_over_def monthly_at_check_def Let_def split: option.splits)

text \<open>
  C4.  For a pilot who is not on duty and a roster that exists: start-duty is denied
  for crew rest while less than eight hours have passed since the last duty ended;
  it is denied whenever the monthly hours (as the monthly reset, when due, leaves
  them) plus the roster's total exceed 100 or the daily hours plus the total exceed 10; once the rest is over the denial names the
  monthly limit, or else the daily limit; and with the rest over (eight hours or
  more, the bound included), both sums at most their ceilings (equality included)
  and every leg within the pilot's rank, the duty starts.
\<close>

theorem start_duty_rest_and_quota:
  assumes "findById (rosters db) rosterId = Some r" and "users db userId = Some u"
    and "dutyStatus u \<noteq> ON_DUTY"
  shows "(lastDutyOff u = Some t \<and> now - t < MIN_REST_PERIOD \<longrightarrow>
            start_duty db userId rosterId now oneMonthAgo
              = (Inl (CrewRestRequired (ceil_minutes (MIN_REST_PERIOD - (now - t)))), db)) \<and>
         (monthly_at_check u oneMonthAgo + totalFlightTime r > MAX_MONTHLY_FLIGHT_HOURS \<or>
          dailyFlightHours u + totalFlightTime r > MAX_DAILY_FLIGHT_HOURS \<longrightarrow>
            (\<exists>d. start_duty db userId rosterId now oneMonthAgo = (Inl d, db))) \<and>
         (rest_over u now \<and>
          monthly_at_check u oneMonthAgo + totalFlightTime r > MAX_MONTHLY_FLIGHT_HOURS \<longrightarrow>
            start_duty db userId rosterId now oneMonthAgo = (Inl MonthlyLimit, db)) \<and>
         (rest_over u now \<and>
          monthly_at_check u oneMonthAgo + totalFlightTime r \<le> MAX_MONTHLY_FLIGHT_HOURS \<and>
          dailyFlightHours u + totalFlightTime r > MAX_DAILY_FLIGHT_HOURS \<longrightarrow>
            start_duty db userId rosterId now oneMonthAgo = (Inl DailyLimit, db)) \<and>
         (rest_over u now \<and>
          monthly_at_check u oneMonthAgo + totalFlightTime r \<le> MAX_MONTHLY_FLIGHT_HOURS \<and>
          dailyFlightHours u + totalFlightTime r \<le> MAX_DAILY_FLIGHT_HOURS \<and>
          (\<forall>l\<in>set (legs r). canFlyLeg (rank u) (getLegRequiredRank l)) \<longrightarrow>
            (\<exists>u'. start_duty db userId rosterId now oneMonthAgo
                     = (Inr r, db\<lparr>users := (users db)(userId \<mapsto> u')\<rparr>) \<and>
                   dutyStatus u' = ON_DUTY \<and> currentRoster u' = Some rosterId \<and>
                   lastDutyStart u' = Some now))"
proof (intro conjI impI)
  assume "lastDutyOff u = Some t \<and> now - t < MIN_REST_PERIOD"
  then show "start_duty db userId rosterId now oneMonthAgo
              = (Inl (CrewRestRequired (ceil_minutes (MIN_REST_PERIOD - (now - t)))), db)"
    using assms by (simp add: start_duty_resting)
next
  assume q: "monthly_at_check u oneMonthAgo + totalFlightTime r > MAX_MONTHLY_FLIGHT_HOURS \<or>
          dailyFlightHours u + totalFlightTime r > MAX_DAILY_FLIGHT_HOURS"
  show "\<exists>d. start_duty db userId rosterId now oneMonthAgo = (Inl d, db)"
  proof (cases "rest_over u now")
    case True
    from q show ?thesis
      unfolding start_duty_rested[OF assms True] by auto
  next
    case False
    then obtain t where "lastDutyOff u = Some t" "now - t < MIN_REST_PERIOD"
      by (auto simp: rest_over_def split: option.splits)
    from start_duty_resting[OF assms this] show ?thesis by blast
  qed
next
  assume "rest_over u now \<and>
          monthly_at_check u oneMonthAgo + totalFlightTime r > MAX_MONTHLY_FLIGHT_HOURS"
  then show "start_duty db userId rosterId now oneMonthAgo = (Inl MonthlyLimit, db)"
    using start_duty_rested[OF assms] by simp
next
  assume "rest_over u now \<and>
          monthly_at_check u oneMonthAgo + totalFlightTime r \<le> MAX_MONTHLY_FLIGHT_HOURS \<and>
          dailyFlightHours u + totalFlightTime r > MAX_DAILY_FLIGHT_HOURS"
  then show "start_duty db userId rosterId now oneMonthAgo = (Inl DailyLimit, db)"
    using start_duty_rested[OF assms] by simp
next
  assume a: "rest_over u now \<and>
          monthly_at_check u oneMonthAgo + totalFlightTime r \<le> MAX_MONTHLY_FLIGHT_HOURS \<and>
          dailyFlightHours u + totalFlightTime r \<le> MAX_DAILY_FLIGHT_HOURS \<and>
          (\<forall>l\<in>set (legs r). canFlyLeg (rank u) (getLegRequiredRank l))"
  then have "find (\<lambda>l. \<not> canFlyLeg (rank u) (getLegRequiredRank l)) (legs r) = None"
    by (simp add: find_None_iff)
  with a show "\<exists>u'. start_duty db userId rosterId now oneMonthAgo
                     = (Inr r, db\<lparr>users := (users db)(userId \<mapsto> u')\<rparr>) \<and>
                   dutyStatus u' = ON_DUTY \<and> currentRoster u' = Some rosterId \<and>
                   lastDutyStart u' = Some now"
    using start_duty_rested[OF assms, of now oneMonthAgo] by auto
qed

lemma quota_store_facts:
  "findById (rosters (quota_store p)) 5 = Some duty_roster"
  "users (quota_store p) 1 = Some p"
  by (simp_all add: quota_store_def findById_def)

lemma quota_pilot_facts:
  "dutyStatus (quota_pilot off m d) \<noteq> ON_DUTY"
  "lastDutyOff (quota_pilot off m d) = off"
  "monthly_at_check (quota_pilot off m d) 50000000 = m"
  "dailyFlightHours (quota_pilot off m d) = d"
  "rank (quota_pilot off m d) = ''Route Explorer''"
  by (simp_all add: quota_pilot_def rested_pilot_def monthly_at_check_def)

lemma duty_roster_flyable:
  "\<forall>l\<in>set (legs duty_roster). canFlyLeg ''Route Explorer'' (getLegRequiredRank l)"
  by (simp add: duty_roster_def sample_legs_def getLegRequiredRank_def canFlyLeg_def
      rankIndex_def pilotRanks_def trim_def is_space_def)

text \<open>
  Seven hours after the last duty: sixty minutes of rest are missing.  Exactly eight
  hours after it: 96 monthly hours or 6 daily hours before a five-hour roster are too
  many, 95 and 5 are not.
\<close>

theorem start_duty_rest_and_quota_witness:
  "start_duty (quota_store (quota_pilot (Some 74800000) 0 0)) 1 5 100000000 50000000
     = (Inl (CrewRestRequired 60), quota_store (quota_pilot (Some 74800000) 0 0)) \<and>
   start_duty (quota_store (quota_pilot (Some 71200000) 96 0)) 1 5 100000000 50000000
     = (Inl MonthlyLimit, quota_store (quota_pilot (Some 71200000) 96 0)) \<and>
   start_duty (quota_store (quota_pilot (Some 71200000) 0 6)) 1 5 100000000 50000000
     = (Inl DailyLimit, quota_store (quota_pilot (Some 71200000) 0 6)) \<and>
   100000000 - 71200000 = MIN_REST_PERIOD \<and>
   95 + totalFlightTime duty_roster = MAX_MONTHLY_FLIGHT_HOURS \<and>
   5 + totalFlightTime duty_roster = MAX_DAILY_FLIGHT_HOURS \<and>
   (\<exists>u'. start_duty (quota_store (quota_pilot (Some 71200000) 95 5)) 1 5 100000000 50000000
            = (Inr duty_roster,
               (quota_store (quota_pilot (Some 71200000) 95 5))
                 \<lparr>users := (users (quota_store (quota_pilot (Some 71200000) 95 5)))(1 \<mapsto> u')\<rparr>) \<and>
          dutyStatus u' = ON_DUTY \<and> currentRoster u' = Some 5 \<and>
          lastDutyStart u' = Some 100000000)"
proof -
  have t: "totalFlightTime duty_roster = 5" by (simp add: duty_roster_def)
  have r: "rest_over (quota_pilot (Some 71200000) m d) 100000000" for m d
    by (simp add: rest_over_def quota_pilot_def MIN_REST_PERIOD_def)
  have c: "ceil_minutes (MIN_REST_PERIOD - (100000000 - 74800000)) = 60"
    by (simp add: ceil_minutes_def MIN_REST_PERIOD_def)
  have 1: "start_duty (quota_store (quota_pilot (Some 74800000) 0 0)) 1 5 100000000 50000000
     = (Inl (CrewRestRequired 60), quota_store (quota_pilot (Some 74800000) 0 0))"
    using start_duty_rest_and_quota[OF quota_store_facts quota_pilot_facts(1),
        of "Some 74800000" 0 0 74800000 100000000 50000000] c
    by (simp add: quota_pilot_facts MIN_REST_PERIOD_def)
  have 2: "start_duty (quota_store (quota_pilot (Some 71200000) 96 0)) 1 5 100000000 50000000
     = (Inl MonthlyLimit, quota_store (quota_pilot (Some 71200000) 96 0))"
    using start_duty_rest_and_quota[OF quota_store_facts quota_pilot_facts(1),
        of "Some 71200000" 96 0 0 100000000 50000000] r
    by (simp add: quota_pilot_facts t MAX_MONTHLY_FLIGHT_HOURS_def)
  have 3: "start_duty (quota_store (quota_pilot (Some 71200000) 0 6)) 1 5 100000000 50000000
     = (Inl DailyLimit, quota_store (quota_pilot (Some 71200000) 0 6))"
    using start_duty_rest_and_quota[OF quota_store_facts quota_pilot_facts(1),
        of "Some 71200000" 0 6 0 100000000 50000000] r
    by (simp add: quota_pilot_facts t MAX_MONTHLY_FLIGHT_HOURS_def MAX_DAILY_FLIGHT_HOURS_def)
  have 4: "\<exists>u'. start_duty (quota_store (quota_pilot (Some 71200000) 95 5)) 1 5 100000000 50000000
            = (Inr duty_roster,
               (quota_store (quota_pilot (Some 71200000) 95 5))
                 \<lparr>users := (users (quota_store (quota_pilot (Some 71200000) 95 5)))(1 \<mapsto> u')\<rparr>) \<and>
          dutyStatus u' = ON_DUTY \<and> currentRoster u' = Some 5 \<and>
          lastDutyStart u' = Some 100000000"
    using start_duty_rest_and_quota[OF quota_store_facts quota_pilot_facts(1),
        of "Some 71200000" 95 5 0 100000000 50000000] r duty_roster_flyable
    by (simp add: quota_pilot_facts t MAX_MONTHLY_FLIGHT_HOURS_def MAX_DAILY_FLIGHT_HOURS_def)
  show ?thesis
    using 1 2 3 4
    by (simp add: t MIN_REST_PERIOD_def MAX_MONTHLY_FLIGHT_HOURS_def MAX_DAILY_FLIGHT_HOURS_def)
qed

section \<open>Ending a duty\<close>



section \<open>Two reports for one leg\<close>

text \<open>
  A second report that carries the flight number of an earlier one, letter for letter,
  is turned down, whatever the status of the earlier report.
\<close>

lemma duplicate_same_flight_number_rejected:
  assumes "users db userId = Some p" "dutyStatus p = ON_DUTY" "currentRoster p = Some rosterId"
    and "findById (rosters db) rosterId = Some r"
    and "l \<in> set (legs r)"
    and "toUpperCase (flightNumber l) = toUpperCase (body_flightNumber body)"
        "toUpperCase (departure l) = toUpperCase (body_departure body)"
        "toUpperCase (arrival l) = toUpperCase (body_arrival body)"
    and "(i, pr) \<in> set (pireps db)" "pilot pr = userId"
        "rosterLeg pr = Some (rosterId, body_flightNumber body)"
    and "body_flightNumber body \<noteq> []" "body_departure body \<noteq> []" "body_arrival body \<noteq> []"
        "body_aircraft body \<noteq> []" "body_flightTime body \<noteq> 0"
  shows "file_report_server_js db userId body = (Inl DuplicateLeg, db)"
proof -
  have "find (\<lambda>l. toUpperCase (flightNumber l) = toUpperCase (body_flightNumber body)
                  \<and> toUpperCase (departure l) = toUpperCase (body_departure body)
                  \<and> toUpperCase (arrival l) = toUpperCase (body_arrival body)) (legs r) \<noteq> None"
    using assms(5-8) by (auto simp: find_None_iff)
  moreover have "list_ex (\<lambda>(i, pr). pilot pr = userId
                    \<and> rosterLeg pr = Some (rosterId, body_flightNumber body)) (pireps db)"
    using assms(9-11) by (auto simp: list_ex_iff)
  ultimately show ?thesis
    using assms(1-4,12-16) by (auto simp: file_report_server_js_def Let_def split: option.splits)
qed

lemma first_filing:
  "file_report_server_js filing_store 1 (leg_body ''6E101'')
   = (Inr 100, filing_store\<lparr>pireps := [(100, filed_report ''6E101'')], next_id := 101\<rparr>)"
  by (simp add: file_report_server_js_def filing_store_def review_store_def leg_body_def on_duty_pilot_def
      rested_pilot_def findById_def duty_roster_def sample_legs_def toUpperCase_def
      to_upper_char_def trim_def is_space_def insertMany_def filed_report_def
      first_leg_report_def Let_def)

text \<open>
  C6.  The claim is that a second report for the same roster and flight number is
  always turned down, also when the flight number differs in letter case.  On duty
  for a roster with the leg \<open>6E101\<close>, the pilot files \<open>6E101\<close>; a second
  \<open>6E101\<close> is a duplicate, but \<open>6e101\<close> matches the same leg, is not found by
  the query for earlier reports, and is stored as a second report of that leg.
\<close>

theorem duplicate_leg_in_other_case_accepted:
  "file_report_server_js filing_store 1 (leg_body ''6E101'')
     = (Inr 100, filing_store\<lparr>pireps := [(100, filed_report ''6E101'')], next_id := 101\<rparr>) \<and>
   fst (file_report_server_js (filing_store\<lparr>pireps := [(100, filed_report ''6E101'')], next_id := 101\<rparr>)
          1 (leg_body ''6E101'')) = Inl DuplicateLeg \<and>
   file_report_server_js (filing_store\<lparr>pireps := [(100, filed_report ''6E101'')], next_id := 101\<rparr>)
       1 (leg_body ''6e101'')
     = (Inr 101,
        filing_store\<lparr>pireps := [(100, filed_report ''6E101''), (101, filed_report ''6e101'')],
                      next_id := 102\<rparr>) \<and>
   rosterLeg (filed_report ''6E101'') = Some (5, ''6E101'') \<and>
   rosterLeg (filed_report ''6e101'') = Some (5, ''6e101'')"
proof -
  have 2: "fst (file_report_server_js (filing_store\<lparr>pireps := [(100, filed_report ''6E101'')], next_id := 101\<rparr>)
          1 (leg_body ''6E101'')) = Inl DuplicateLeg"
    by (simp add: file_report_server_js_def filing_store_def review_store_def leg_body_def on_duty_pilot_def
      rested_pilot_def findById_def duty_roster_def sample_legs_def toUpperCase_def
      to_upper_char_def trim_def is_space_def insertMany_def filed_report_def
      first_leg_report_def Let_def)
  have 3: "file_report_server_js (filing_store\<lparr>pireps := [(100, filed_report ''6E101'')], next_id := 101\<rparr>)
       1 (leg_body ''6e101'')
     = (Inr 101,
        filing_store\<lparr>pireps := [(100, filed_report ''6E101''), (101, filed_report ''6e101'')],
                      next_id := 102\<rparr>)"
    by (simp add: file_report_server_js_def filing_store_def review_store_def leg_body_def on_duty_pilot_def
      rested_pilot_def findById_def duty_roster_def sample_legs_def toUpperCase_def
      to_upper_char_def trim_def is_space_def insertMany_def filed_report_def
      first_leg_report_def Let_def)
  show ?thesis
    using first_filing 2 3 by (simp add: filed_report_def)
qed

section \<open>Reviewing a reviewed report\<close>

text \<open>
  The later revision tests the status before it writes: reject and approve leave the
  store as it is when the report is not pending.
\<close>

lemma reject_pirep_guarded:
  "findById (pireps db) pirepId = Some pr \<Longrightarrow> status pr \<noteq> PENDING \<Longrightarrow> reason \<noteq> [] \<Longrightarrow>
   reject_pirep db pirepId reviewer now reason = (Inl (AlreadyReviewed (status pr)), db)"
  by (simp add: reject_pirep_def)

lemma approve_pirep_guarded:
  "findById (pireps db) pirepId = Some pr \<Longrightarrow> status pr \<noteq> PENDING \<Longrightarrow>
   approve_pirep db pirepId reviewer now = (Inl (AlreadyReviewed (status pr)), db)"
  by (simp add: approve_pirep_def)

text \<open>
  C7.  The claim is that reject on a report that is not pending is refused and changes
  nothing.  The reject route of \<open>server.js\<close> refuses it too, but only after the
  write: an approved report comes out rejected, with the new reason, reviewer and
  time of review.  The later revision of the route leaves the store alone.
\<close>

theorem reject_overwrites_reviewed_report:
  "map_option (\<lambda>pr. (status pr, rejectionReason pr, reviewedBy pr, reviewedAt pr))
     (findById (pireps reviewed_store) 10) = Some (APPROVED, None, Some 2, Some 5000) \<and>
   fst (reject_pirep_server_js reviewed_store 10 3 7000 ''late'') = Inl (AlreadyReviewed APPROVED) \<and>
   map_option (\<lambda>pr. (status pr, rejectionReason pr, reviewedBy pr, reviewedAt pr))
     (findById (pireps (snd (reject_pirep_server_js reviewed_store 10 3 7000 ''late''))) 10)
     = Some (REJECTED, Some ''late'', Some 3, Some 7000) \<and>
   reject_pirep reviewed_store 10 3 7000 ''late'' = (Inl (AlreadyReviewed APPROVED), reviewed_store)"
  by (simp add: reject_pirep_server_js_def reject_pirep_def reviewed_store_def review_store_def
      findById_def save_doc_def first_leg_report_def Let_def)

section \<open>Replacement of the generated rosters\<close>












section \<open>Durations\<close>








text \<open>
  The older parser of \<open>server.js\<close> knows the letter form only: it gives zero for
  \<open>1:30\<close> and for \<open>90\<close>, and a row with a zero duration is dropped as well.
\<close>

lemma older_parser:
  "convertTimeToDecimal_server_js (Some ''2h 15m'') = Num (9 / 4) \<and>
   convertTimeToDecimal_server_js (Some ''1:30'') = Num 0 \<and>
   convertTimeToDecimal_server_js (Some ''90'') = Num 0"
  by (simp add: convertTimeToDecimal_server_js_def is_digit_def is_space_def digits_val_def digit_val_def)

section \<open>Legs of no known rank\<close>

lemma rankIndex_Unknown: "rankIndex ''Unknown'' = - 1"
  by (simp add: rankIndex_def pilotRanks_def trim_def is_space_def)

lemma canFlyLeg_Unknown: "\<not> canFlyLeg r ''Unknown''"
  by (simp add: canFlyLeg_def rankIndex_Unknown Let_def)

lemma deduce_Unknown:
  assumes "\<forall>(alts, r)\<in>set aircraftRankTable. \<not> has (toUpperCase ac) alts"
  shows "deduceRankFromAircraft ac = ''Unknown''"
proof -
  from assms have "find (\<lambda>(alts, r). has (toUpperCase ac) alts) aircraftRankTable = None"
    by (auto simp: find_None_iff)
  then show ?thesis by (simp add: deduceRankFromAircraft_def Let_def)
qed

lemma required_rank_Unknown:
  assumes "\<forall>r. rankUnlock l = Some r \<longrightarrow> r \<notin> set pilotRanks"
    and "\<forall>(alts, r)\<in>set aircraftRankTable. \<not> has (toUpperCase (aircraft l)) alts"
  shows "getLegRequiredRank l = ''Unknown''"
  using assms(1) deduce_Unknown[OF assms(2)]
  by (auto simp: getLegRequiredRank_def split: option.splits)

text \<open>
  C10.  A leg whose rank tag is no tier and whose aircraft matches no entry of the
  aircraft table requires the rank \<open>Unknown\<close>; no pilot rank can fly it, and
  start-duty on a roster that holds such a leg is denied, whoever asks.
\<close>

theorem unknown_rank_leg_blocks:
  assumes "\<forall>t. rankUnlock l = Some t \<longrightarrow> t \<notin> set pilotRanks"
    and "\<forall>(alts, t)\<in>set aircraftRankTable. \<not> has (toUpperCase (aircraft l)) alts"
  shows "getLegRequiredRank l = ''Unknown'' \<and>
         \<not> canFlyLeg r (getLegRequiredRank l) \<and>
         (findById (rosters db) rosterId = Some ro \<and> l \<in> set (legs ro) \<longrightarrow>
            (\<exists>d. start_duty db userId rosterId now oneMonthAgo = (Inl d, db)))"
proof -
  have u: "getLegRequiredRank l = ''Unknown''" by (rule required_rank_Unknown[OF assms])
  have nf: "\<not> canFlyLeg r' (getLegRequiredRank l)" for r'
    by (simp add: u canFlyLeg_Unknown)
  have "\<exists>d. start_duty db userId rosterId now oneMonthAgo = (Inl d, db)"
    if ro: "findById (rosters db) rosterId = Some ro" and m: "l \<in> set (legs ro)"
  proof -
    have fnd: "(find (\<lambda>l. \<not> canFlyLeg r' (getLegRequiredRank l)) (legs ro) = None) = False" for r'
      using m nf by (auto simp: find_None_iff)
    show ?thesis
      using ro by (auto simp: start_duty_def Let_def fnd split: option.splits)
  qed
  with u nf show ?thesis by blast
qed

text \<open>
  A pilot of the highest tier, rested and within every quota, is turned away from a
  roster of Cessna legs by the rank check.
\<close>

theorem unknown_rank_leg_blocks_witness:
  "getLegRequiredRank light_leg = ''Unknown'' \<and>
   canFlyLeg ''Blue Legacy Commander'' ''IndGo Cadet'' \<and>
   \<not> canFlyLeg ''Blue Legacy Commander'' (getLegRequiredRank light_leg) \<and>
   findById (rosters senior_store) 7 = Some light_roster \<and>
   light_leg \<in> set (legs light_roster) \<and>
   start_duty senior_store 1 7 1000 0 = (Inl (OverRank ''6E900'' ''Unknown''), senior_store)"
proof -
  have h1: "\<forall>t. rankUnlock light_leg = Some t \<longrightarrow> t \<notin> set pilotRanks"
    by (simp add: light_leg_def pilotRanks_def)
  have h2: "\<forall>(alts, t)\<in>set aircraftRankTable. \<not> has (toUpperCase (aircraft light_leg)) alts"
    by (simp add: light_leg_def aircraftRankTable_def has_def toUpperCase_def to_upper_char_def)
  have ro: "findById (rosters senior_store) 7 = Some light_roster"
    by (simp add: senior_store_def findById_def)
  have m: "light_leg \<in> set (legs light_roster)" by (simp add: light_roster_def)
  have ok: "canFlyLeg ''Blue Legacy Commander'' ''IndGo Cadet''"
    by (simp add: canFlyLeg_def rankIndex_def pilotRanks_def trim_def is_space_def)
  from unknown_rank_leg_blocks[OF h1 h2, of "''Blue Legacy Commander''" senior_store 7 light_roster 1 1000 0] ro m
  obtain d where u: "getLegRequiredRank light_leg = ''Unknown''"
    and n: "\<not> canFlyLeg ''Blue Legacy Commander'' (getLegRequiredRank light_leg)"
    and d: "start_duty senior_store 1 7 1000 0 = (Inl d, senior_store)" by blast
  have "fst (start_duty senior_store 1 7 1000 0) = Inl (OverRank ''6E900'' ''Unknown'')"
    unfolding start_duty_def
    apply (simp add: ro)
    apply (simp add: senior_store_def rested_pilot_def light_roster_def MAX_MONTHLY_FLIGHT_HOURS_def MAX_DAILY_FLIGHT_HOURS_def Let_def)
    apply (simp add: canFlyLeg_def rankIndex_def pilotRanks_def trim_def is_space_def u Let_def)
    apply (simp add: light_leg_def)
    done
  with d have "start_duty senior_store 1 7 1000 0 = (Inl (OverRank ''6E900'' ''Unknown''), senior_store)"
    by simp
  with u n ro m ok show ?thesis by simp
qed

end
